theory Spec2Isabelle
  imports Main "HOL-Library.Sublist" "HOL-Library.List_Lexorder" "HOL-Library.Char_ord"
    "HOL-Library.Multiset" "HOL-Library.AList"
begin

section \<open>JavaScript primitives used by the sources\<close>

text \<open>
  Strings are lists of 8-bit code units (\<^typ>\<open>string\<close>); \<open><\<close> on strings is the
  lexicographic order on code units, as JavaScript's relational operators on strings are.
  Numbers that count things (\<open>limit\<close>, \<open>offset\<close>, lengths) are natural numbers, indices
  computed by subtraction are integers.
\<close>

text \<open>\<open>Array.prototype.slice\<close> and \<open>String.prototype.slice\<close> on integer arguments: a
  negative index counts from the end, every index is clamped to the length.\<close>

definition relative_index :: "int \<Rightarrow> int \<Rightarrow> int" where
  "relative_index len i = (if i < 0 then max (len + i) 0 else min i len)"

definition slice :: "'a list \<Rightarrow> int \<Rightarrow> int \<Rightarrow> 'a list" where
  "slice xs start fin =
     (let len = int (length xs);
          k = relative_index len start;
          final = relative_index len fin
      in take (nat (final - k)) (drop (nat k) xs))"

text \<open>\<open>Array.prototype.sort\<close> with a comparator. The sort is stable; for a consistent
  comparator its result is the one stable arrangement, which insertion from the right
  computes. A comparator result of NaN counts as \<open>+0\<close>; the comparators below return
  \<open>0\<close> there.\<close>

fun insert_by :: "('a \<Rightarrow> 'a \<Rightarrow> int) \<Rightarrow> 'a \<Rightarrow> 'a list \<Rightarrow> 'a list" where
  "insert_by cmp x [] = [x]"
| "insert_by cmp x (y # ys) = (if cmp x y \<le> 0 then x # y # ys else y # insert_by cmp x ys)"

definition array_sort :: "('a \<Rightarrow> 'a \<Rightarrow> int) \<Rightarrow> 'a list \<Rightarrow> 'a list" where
  "array_sort cmp xs = foldr (insert_by cmp) xs []"

text \<open>\<open>String.prototype.indexOf\<close> (\<open>-1\<close> when absent) and \<open>includes\<close>.\<close>

fun indexOf :: "'a list \<Rightarrow> 'a list \<Rightarrow> int" where
  "indexOf [] needle = (if needle = [] then 0 else - 1)"
| "indexOf (c # cs) needle =
     (if prefix needle (c # cs) then 0
      else (let r = indexOf cs needle in if r < 0 then - 1 else r + 1))"

fun string_includes :: "'a list \<Rightarrow> 'a list \<Rightarrow> bool" where
  "string_includes [] needle = (needle = [])"
| "string_includes (c # cs) needle = (prefix needle (c # cs) \<or> string_includes cs needle)"

text \<open>\<open>String.prototype.toLowerCase\<close> on code units below 256: the ASCII capitals and the
  Latin-1 capitals (U+00C0 to U+00DE without the multiplication sign) move up by 32, every
  other unit is kept. On these units the mapping is unit by unit.\<close>

definition lower_unit :: "char \<Rightarrow> char" where
  "lower_unit c =
     (let n = (of_char c :: nat)
      in if (65 \<le> n \<and> n \<le> 90) \<or> (192 \<le> n \<and> n \<le> 222 \<and> n \<noteq> 215)
         then char_of (n + 32) else c)"

definition toLowerCase :: "string \<Rightarrow> string" where
  "toLowerCase s = map lower_unit s"

text \<open>\<open>str.replace(pattern, replacement)\<close> with a string pattern replaces the first
  occurrence only.\<close>

fun replace_first :: "string \<Rightarrow> string \<Rightarrow> string \<Rightarrow> string" where
  "replace_first pat rep [] = (if pat = [] then rep else [])"
| "replace_first pat rep (c # cs) =
     (if prefix pat (c # cs) then rep @ drop (length pat) (c # cs)
      else c # replace_first pat rep cs)"

text \<open>\<open>Array.prototype.join\<close>.\<close>

fun join :: "string \<Rightarrow> string list \<Rightarrow> string" where
  "join sep [] = []"
| "join sep [x] = x"
| "join sep (x # y # ys) = x @ sep @ join sep (y # ys)"

text \<open>Truthiness of an optional string: \<open>undefined\<close> and the empty string are falsy.\<close>

fun truthy :: "string option \<Rightarrow> bool" where
  "truthy None = False"
| "truthy (Some s) = (s \<noteq> [])"

text \<open>A \<open>Date\<close> object: a time value in milliseconds, or Invalid Date (time value NaN).\<close>

datatype js_date = Date int | Invalid_Date

fun getTime :: "js_date \<Rightarrow> int option" where
  "getTime (Date t) = Some t"
| "getTime Invalid_Date = None"

text \<open>\<open>a.getTime() - b.getTime()\<close> as a comparator result: NaN counts as \<open>0\<close>.\<close>

definition time_diff :: "js_date \<Rightarrow> js_date \<Rightarrow> int" where
  "time_diff a b = (case (getTime a, getTime b) of (Some x, Some y) \<Rightarrow> x - y | _ \<Rightarrow> 0)"

text \<open>\<open>new Date(Math.min(...ts))\<close> and \<open>new Date(Math.max(...ts))\<close>: on an empty array
  \<open>Math.min\<close> is \<open>Infinity\<close> and the date is invalid.\<close>

fun date_of_min :: "int list \<Rightarrow> js_date" where
  "date_of_min [] = Invalid_Date"
| "date_of_min (t # ts) = Date (fold min ts t)"

fun date_of_max :: "int list \<Rightarrow> js_date" where
  "date_of_max [] = Invalid_Date"
| "date_of_max (t # ts) = Date (fold max ts t)"

section \<open>Data model (types.ts)\<close>

datatype source_type = code | cloud

record project =
  project_id :: string
  project_name :: string
  project_path :: "string option"
  project_source :: source_type
  sessionCount :: nat
  project_messageCount :: nat
  lastActivity :: js_date

record session =
  session_id :: string
  session_source :: source_type
  projectId :: "string option"
  projectName :: "string option"
  title :: "string option"
  createdAt :: js_date
  updatedAt :: js_date
  messageCount :: nat

record message =
  message_id :: string
  role :: string
  content :: string
  timestamp :: js_date

record conversation =
  conversation_id :: string
  conversation_source :: source_type
  conversation_session :: session
  messages :: "message list"

record search_result =
  result_source :: source_type
  result_sessionId :: string
  result_messageId :: string
  snippet :: string
  result_timestamp :: js_date

record pagination_info =
  total_count :: nat
  page_limit :: nat
  page_offset :: nat
  has_more :: bool

record list_sessions_response =
  sessions :: "session list"
  pagination :: pagination_info

record search_conversations_response =
  results :: "search_result list"
  sources_searched :: "source_type list"

text \<open>A record of a local log file. \<open>message.content\<close> is a string or a list of items; an
  item is a string, or a block with a \<open>type\<close>, an optional \<open>text\<close> and its
  \<open>JSON.stringify\<close> form. \<open>entry_time\<close> is the time value of
  \<open>new Date(entry.timestamp)\<close>; records whose timestamp does not parse are not modelled.
  The fields no operation reads (\<open>parentUuid\<close>, \<open>cwd\<close>, \<open>version\<close>, ...) are left out.\<close>

datatype content_item =
    StringItem string
  | Block (block_type: string) (block_text: "string option") (block_json: string)

datatype message_content = Text string | Items "content_item list"

record claude_code_message =
  entry_sessionId :: string
  entry_type :: string
  entry_content :: "message_content option"
  uuid :: string
  entry_timestamp :: string
  entry_time :: int

text \<open>Responses of the remote API. The time fields hold the time values of
  \<open>new Date(created_at)\<close> and \<open>new Date(updated_at)\<close>.\<close>

record cloud_organization =
  org_uuid :: string
  org_name :: string

record cloud_content_block =
  cb_type :: string
  cb_text :: "string option"

record cloud_message =
  cm_uuid :: string
  sender :: string
  cm_text :: string
  cm_created_at :: int
  cm_content :: "cloud_content_block list option"

record cloud_conversation_detail =
  cd_uuid :: string
  cd_name :: string
  cd_created_at :: int
  cd_updated_at :: int
  chat_messages :: "cloud_message list option"

section \<open>Source options (sources/index.ts)\<close>

record list_sessions_options =
  ls_projectPath :: "string option"
  ls_projectId :: "string option"
  ls_startDate :: "string option"
  ls_endDate :: "string option"
  ls_timezone :: "string option"
  ls_limit :: "nat option"
  ls_offset :: "nat option"

record get_conversation_options =
  gc_sessionId :: string
  gc_messageTypes :: "string list option"
  gc_limit :: "nat option"
  gc_offset :: "nat option"

record search_options =
  so_query :: string
  so_projectPath :: "string option"
  so_projectId :: "string option"
  so_startDate :: "string option"
  so_endDate :: "string option"
  so_timezone :: "string option"
  so_limit :: "nat option"

section \<open>Date normalizer (utils/date.ts)\<close>

text \<open>What the JavaScript engine supplies and the repository does not define: the
  system time zone, \<open>Date.prototype.toISOString\<close> on a time value, and the outcome of the
  \<open>Date\<close> and \<open>toLocaleString\<close> computation that \<open>normalizeDate\<close> runs for a bare day
  in a zone other than UTC (\<open>None\<close> when that computation throws). They are parameters.\<close>

record engine =
  systemTimeZone :: string
  toISOString :: "int \<Rightarrow> string"
  zoneBoundary :: "string \<Rightarrow> bool \<Rightarrow> string \<Rightarrow> string option"

definition boundary_time :: "bool \<Rightarrow> string" where
  "boundary_time isEndDate = (if isEndDate then ''23:59:59.999'' else ''00:00:00.000'')"

definition normalizeDate :: "engine \<Rightarrow> string \<Rightarrow> bool \<Rightarrow> string option \<Rightarrow> string" where
  "normalizeDate E dateString isEndDate timezone =
     (if CHR ''T'' \<in> set dateString then dateString
      else
        (let tz = (case timezone of
                     None \<Rightarrow> systemTimeZone E
                   | Some z \<Rightarrow> if z \<noteq> [] then z else systemTimeZone E)
         in if tz = ''UTC'' then dateString @ ''T'' @ boundary_time isEndDate @ ''Z''
            else (case zoneBoundary E dateString isEndDate tz of
                    Some utcResult \<Rightarrow> utcResult
                  | None \<Rightarrow> dateString @ ''T'' @ boundary_time isEndDate @ ''Z'')))"

text \<open>\<open>date ? normalizeDate(date, isEnd, timezone) : undefined\<close>\<close>

definition normalized :: "engine \<Rightarrow> string option \<Rightarrow> bool \<Rightarrow> string option \<Rightarrow> string option" where
  "normalized E date isEndDate timezone =
     (case date of
        None \<Rightarrow> None
      | Some d \<Rightarrow> if d \<noteq> [] then Some (normalizeDate E d isEndDate timezone) else None)"

section \<open>Local log source (sources/claude-code.ts)\<close>

text \<open>The directory tree under \<open>~/.claude/projects\<close>. A line of a log file is blank, fails
  \<open>JSON.parse\<close>, or parses to a record. An entry of the projects directory has a name, is a
  directory or not, and lists its files; \<open>readdir\<close> of the projects directory itself throws
  when the directory is missing (\<open>None\<close>). Every operation of the source runs its traversal
  inside \<open>try\<close>/\<open>catch\<close>: where \<open>readdir\<close> of the projects directory throws, the operation
  goes on with what it has collected, which is nothing. \<open>stat\<close> and \<open>readdir\<close> of an
  entry that was listed, and reading a file that was listed, are taken to succeed.\<close>

datatype jsonl_line = Blank | Malformed | Parsed claude_code_message

record dir_file =
  file_name :: string
  mtime :: int
  birthtime :: int
  file_lines :: "jsonl_line list"

record project_entry =
  entry_name :: string
  isDirectory :: bool
  entry_files :: "dir_file list"

type_synonym projects_dir = "project_entry list option"

definition decodeProjectPath :: "string \<Rightarrow> string" where
  "decodeProjectPath projectDir =
     (case map (\<lambda>c. if c = CHR ''-'' then CHR ''/'' else c) projectDir of
        [] \<Rightarrow> []
      | c # cs \<Rightarrow> if c = CHR ''/'' then cs else c # cs)"

fun item_text :: "content_item \<Rightarrow> string" where
  "item_text (StringItem s) = s"
| "item_text (Block t txt json) =
     (case txt of
        Some s \<Rightarrow> if t = ''text'' \<and> s \<noteq> [] then s else json
      | None \<Rightarrow> json)"

definition extractContent :: "claude_code_message \<Rightarrow> string" where
  "extractContent entry =
     (case entry_content entry of
        None \<Rightarrow> []
      | Some (Text s) \<Rightarrow> s
      | Some (Items items) \<Rightarrow> join '' '' (map item_text items))"

fun parse_line :: "string option \<Rightarrow> string option \<Rightarrow> jsonl_line \<Rightarrow> claude_code_message list" where
  "parse_line startDate endDate Blank = []"
| "parse_line startDate endDate Malformed = []"
| "parse_line startDate endDate (Parsed msg) =
     (if (case startDate of Some d \<Rightarrow> d \<noteq> [] \<and> entry_timestamp msg < d | None \<Rightarrow> False) then []
      else if (case endDate of Some d \<Rightarrow> d \<noteq> [] \<and> entry_timestamp msg > d | None \<Rightarrow> False) then []
      else [msg])"

definition parseJsonlFile :: "dir_file \<Rightarrow> string option \<Rightarrow> string option \<Rightarrow> claude_code_message list" where
  "parseJsonlFile f startDate endDate = concat (map (parse_line startDate endDate) (file_lines f))"

definition shouldSkipFile :: "engine \<Rightarrow> dir_file \<Rightarrow> string option \<Rightarrow> string option \<Rightarrow> bool" where
  "shouldSkipFile E f startDate endDate =
     (if \<not> truthy startDate \<and> \<not> truthy endDate then False
      else
        (let fileModTime = toISOString E (mtime f);
             fileCreateTime = toISOString E (birthtime f);
             oldestPossibleTime = (if fileCreateTime < fileModTime then fileCreateTime else fileModTime);
             newestPossibleTime = fileModTime
         in if (case endDate of Some d \<Rightarrow> d \<noteq> [] \<and> oldestPossibleTime > d | None \<Rightarrow> False) then True
            else if (case startDate of Some d \<Rightarrow> d \<noteq> [] \<and> newestPossibleTime < d | None \<Rightarrow> False) then True
            else False))"

text \<open>The name filter of the file loops and the session id taken from a file name.\<close>

definition is_jsonl :: "dir_file \<Rightarrow> bool" where
  "is_jsonl f = suffix ''.jsonl'' (file_name f)"

definition file_sessionId :: "dir_file \<Rightarrow> string" where
  "file_sessionId f = replace_first ''.jsonl'' [] (file_name f)"

subsection \<open>listProjects\<close>

text \<open>The \<open>Map\<close> from decoded path to the running totals keeps its keys in insertion
  order: an association list, updated in place. \<open>new Date(0)\<close> has the time value \<open>0\<close>.\<close>

record project_info =
  info_sessionIds :: "string list"
  info_messageCount :: nat
  info_lastActivity :: int

definition add_file :: "dir_file \<Rightarrow> project_info \<Rightarrow> project_info" where
  "add_file f info =
     (if is_jsonl f
      then \<lparr> info_sessionIds = List.insert (file_sessionId f) (info_sessionIds info),
             info_messageCount = info_messageCount info + length (parseJsonlFile f None None),
             info_lastActivity = (if mtime f > info_lastActivity info then mtime f
                                  else info_lastActivity info) \<rparr>
      else info)"

definition add_project ::
  "project_entry \<Rightarrow> (string \<times> project_info) list \<Rightarrow> (string \<times> project_info) list" where
  "add_project projectDir projects =
     (if isDirectory projectDir
      then (let decodedPath = decodeProjectPath (entry_name projectDir);
                projectInfo = (case map_of projects decodedPath of
                                 Some info \<Rightarrow> info
                               | None \<Rightarrow> \<lparr> info_sessionIds = [], info_messageCount = 0,
                                            info_lastActivity = 0 \<rparr>)
            in AList.update decodedPath (fold add_file (entry_files projectDir) projectInfo) projects)
      else projects)"

definition ClaudeCodeSource_listProjects :: "projects_dir \<Rightarrow> project list" where
  "ClaudeCodeSource_listProjects fs =
     map (\<lambda>(decodedPath, info).
            \<lparr> project_id = ''code_'' @ decodedPath,
              project_name = decodedPath,
              project_path = Some decodedPath,
              project_source = code,
              sessionCount = length (info_sessionIds info),
              project_messageCount = info_messageCount info,
              lastActivity = Date (info_lastActivity info) \<rparr>)
         (case fs of None \<Rightarrow> [] | Some projectDirs \<Rightarrow> fold add_project projectDirs [])"

subsection \<open>listSessions\<close>

text \<open>The body of the file loop: the session pushed for one file, if any.\<close>

definition file_session ::
  "engine \<Rightarrow> string option \<Rightarrow> string option \<Rightarrow> string \<Rightarrow> dir_file \<Rightarrow> session list" where
  "file_session E normalizedStartDate normalizedEndDate decodedPath f =
     (let entries = parseJsonlFile f None None
      in case map entry_time entries of
           [] \<Rightarrow> []
         | t # ts \<Rightarrow>
             (let sessionStart = fold min ts t;
                  sessionEnd = fold max ts t
              in if (case normalizedStartDate of
                       Some d \<Rightarrow> d \<noteq> [] \<and> toISOString E sessionEnd < d | None \<Rightarrow> False) then []
                 else if (case normalizedEndDate of
                       Some d \<Rightarrow> d \<noteq> [] \<and> toISOString E sessionStart > d | None \<Rightarrow> False) then []
                 else [\<lparr> session_id = file_sessionId f,
                         session_source = code,
                         projectId = Some (''code_'' @ decodedPath),
                         projectName = Some decodedPath,
                         title = None,
                         createdAt = Date sessionStart,
                         updatedAt = Date sessionEnd,
                         messageCount = length entries \<rparr>]))"

text \<open>The body of the directory loop.\<close>

definition project_sessions ::
  "engine \<Rightarrow> string option \<Rightarrow> string option \<Rightarrow> string option \<Rightarrow> project_entry \<Rightarrow> session list" where
  "project_sessions E projectPath normalizedStartDate normalizedEndDate projectDir =
     (let decodedPath = decodeProjectPath (entry_name projectDir)
      in if truthy projectPath \<and> Some decodedPath \<noteq> projectPath then []
         else if isDirectory projectDir
           then concat (map (file_session E normalizedStartDate normalizedEndDate decodedPath)
                          (filter is_jsonl (entry_files projectDir)))
           else [])"

definition by_updatedAt_desc :: "session \<Rightarrow> session \<Rightarrow> int" where
  "by_updatedAt_desc a b = time_diff (updatedAt b) (updatedAt a)"

definition ClaudeCodeSource_listSessions ::
  "engine \<Rightarrow> projects_dir \<Rightarrow> list_sessions_options \<Rightarrow> session list" where
  "ClaudeCodeSource_listSessions E fs options =
     (let limit = (case ls_limit options of Some l \<Rightarrow> l | None \<Rightarrow> 50);
          offset = (case ls_offset options of Some k \<Rightarrow> k | None \<Rightarrow> 0);
          normalizedStartDate = normalized E (ls_startDate options) False (ls_timezone options);
          normalizedEndDate = normalized E (ls_endDate options) True (ls_timezone options);
          collected =
            (case fs of
               None \<Rightarrow> []
             | Some projectDirs \<Rightarrow>
                 concat (map (project_sessions E (ls_projectPath options)
                                normalizedStartDate normalizedEndDate) projectDirs))
      in slice (array_sort by_updatedAt_desc collected) (int offset) (int (offset + limit)))"

subsection \<open>getConversation\<close>

text \<open>\<open>fs.access\<close> of \<open>projectDir/name\<close> succeeds when the entry is a directory that holds a
  file of that name (session ids are taken without path separators).\<close>

definition lookup_file :: "project_entry \<Rightarrow> string \<Rightarrow> dir_file option" where
  "lookup_file projectDir name =
     (if isDirectory projectDir then find (\<lambda>f. file_name f = name) (entry_files projectDir)
      else None)"

text \<open>The directory loop: the first directory where the access succeeds.\<close>

fun first_session_file :: "string \<Rightarrow> project_entry list \<Rightarrow> (project_entry \<times> dir_file) option" where
  "first_session_file name [] = None"
| "first_session_file name (projectDir # rest) =
     (case lookup_file projectDir name of
        None \<Rightarrow> first_session_file name rest
      | Some f \<Rightarrow> Some (projectDir, f))"

definition mapped_role :: "claude_code_message \<Rightarrow> string" where
  "mapped_role e = (if entry_type e = ''result'' then ''system'' else entry_type e)"

definition allowed_types :: "string list option \<Rightarrow> string list" where
  "allowed_types messageTypes =
     (case messageTypes of
        Some ts \<Rightarrow> if length ts > 0 then ts else [''user'', ''assistant'']
      | None \<Rightarrow> [''user'', ''assistant''])"

definition entry_message :: "claude_code_message \<Rightarrow> message" where
  "entry_message e =
     \<lparr> message_id = uuid e,
       role = mapped_role e,
       content = extractContent e,
       timestamp = Date (entry_time e) \<rparr>"

definition by_timestamp_asc :: "message \<Rightarrow> message \<Rightarrow> int" where
  "by_timestamp_asc a b = time_diff (timestamp a) (timestamp b)"

definition ClaudeCodeSource_getConversation ::
  "projects_dir \<Rightarrow> get_conversation_options \<Rightarrow> conversation option" where
  "ClaudeCodeSource_getConversation fs options =
     (let sessionId = gc_sessionId options;
          limit = (case gc_limit options of Some l \<Rightarrow> l | None \<Rightarrow> 100);
          offset = (case gc_offset options of Some k \<Rightarrow> k | None \<Rightarrow> 0);
          allowedTypes = allowed_types (gc_messageTypes options)
      in case fs of
           None \<Rightarrow> None
         | Some projectDirs \<Rightarrow>
             (case first_session_file (sessionId @ ''.jsonl'') projectDirs of
                None \<Rightarrow> None
              | Some (projectDir, f) \<Rightarrow>
                  (let entries = parseJsonlFile f None None;
                       decodedPath = decodeProjectPath (entry_name projectDir);
                       msgs = array_sort by_timestamp_asc
                                (map entry_message
                                   (filter (\<lambda>e. mapped_role e \<in> set allowedTypes
                                                 \<or> entry_type e \<in> set allowedTypes) entries));
                       paginatedMessages = slice msgs (int offset) (int (offset + limit));
                       timestamps = map entry_time entries
                   in Some \<lparr> conversation_id = sessionId,
                             conversation_source = code,
                             conversation_session =
                               \<lparr> session_id = sessionId,
                                 session_source = code,
                                 projectId = Some (''code_'' @ decodedPath),
                                 projectName = Some decodedPath,
                                 title = None,
                                 createdAt = date_of_min timestamps,
                                 updatedAt = date_of_max timestamps,
                                 messageCount = length msgs \<rparr>,
                             messages = paginatedMessages \<rparr>)))"

subsection \<open>search\<close>

text \<open>The snippet built for a record whose content includes the query.\<close>

definition match_snippet :: "string \<Rightarrow> string \<Rightarrow> string" where
  "match_snippet content0 query =
     (let idx = indexOf (toLowerCase content0) (toLowerCase query);
          snippetStart = max 0 (idx - 50);
          snippetEnd = min (int (length content0)) (idx + int (length query) + 50)
      in (if snippetStart > 0 then ''...'' else [])
         @ slice content0 snippetStart snippetEnd
         @ (if snippetEnd < int (length content0) then ''...'' else []))"

text \<open>The body of the record loop: the result pushed for one record, if any.\<close>

definition entry_result :: "string \<Rightarrow> claude_code_message \<Rightarrow> search_result list" where
  "entry_result query entry =
     (let content0 = extractContent entry
      in if string_includes (toLowerCase content0) (toLowerCase query)
         then [\<lparr> result_source = code,
                 result_sessionId = entry_sessionId entry,
                 result_messageId = uuid entry,
                 snippet = match_snippet content0 query,
                 result_timestamp = Date (entry_time entry) \<rparr>]
         else [])"

text \<open>What one file of a batch contributes.\<close>

definition file_results ::
  "engine \<Rightarrow> string option \<Rightarrow> string option \<Rightarrow> string \<Rightarrow> dir_file \<Rightarrow> search_result list" where
  "file_results E normalizedStartDate normalizedEndDate query f =
     (if shouldSkipFile E f normalizedStartDate normalizedEndDate then []
      else concat (map (entry_result query)
                     (parseJsonlFile f normalizedStartDate normalizedEndDate)))"

text \<open>The batch loop: ten files at a time, no new batch once \<open>limit\<close> results are there.\<close>

function search_batches ::
  "(dir_file \<Rightarrow> search_result list) \<Rightarrow> nat \<Rightarrow> dir_file list \<Rightarrow> nat \<Rightarrow> search_result list
     \<Rightarrow> search_result list" where
  "search_batches process limit filePaths i found =
     (if i < length filePaths
      then (if length found \<ge> limit then found
            else search_batches process limit filePaths (i + 10)
                   (found @ concat (map process (slice filePaths (int i) (int (i + 10))))))
      else found)"
  by pat_completeness auto
termination
  by (relation "measure (\<lambda>(process, limit, filePaths, i, found). length filePaths - i)") auto

text \<open>Phase 1: the files of the selected project directories.\<close>

definition project_files :: "string option \<Rightarrow> project_entry \<Rightarrow> dir_file list" where
  "project_files projectPath projectDir =
     (let decodedPath = decodeProjectPath (entry_name projectDir)
      in if truthy projectPath \<and> Some decodedPath \<noteq> projectPath then []
         else if \<not> isDirectory projectDir then []
         else filter is_jsonl (entry_files projectDir))"

definition by_result_timestamp_desc :: "search_result \<Rightarrow> search_result \<Rightarrow> int" where
  "by_result_timestamp_desc a b = time_diff (result_timestamp b) (result_timestamp a)"

definition ClaudeCodeSource_search ::
  "engine \<Rightarrow> projects_dir \<Rightarrow> search_options \<Rightarrow> search_result list" where
  "ClaudeCodeSource_search E fs options =
     (let query = so_query options;
          limit = (case so_limit options of Some l \<Rightarrow> l | None \<Rightarrow> 30);
          normalizedStartDate = normalized E (so_startDate options) False (so_timezone options);
          normalizedEndDate = normalized E (so_endDate options) True (so_timezone options);
          found =
            (case fs of
               None \<Rightarrow> []
             | Some projectDirs \<Rightarrow>
                 search_batches (file_results E normalizedStartDate normalizedEndDate query) limit
                   (concat (map (project_files (so_projectPath options)) projectDirs)) 0 [])
      in slice (array_sort by_result_timestamp_desc found) 0 (int limit))"

section \<open>Remote API client (auth/session.ts)\<close>

text \<open>What one \<open>fetch\<close> attempt can end in: a response with its status and, when the body
  parses as JSON, the parsed payload; an abort by the ten second timeout; or any other
  rejection. An endpoint tells, for the \<open>n\<close>-th request the client has sent, how long the
  attempt takes and how it ends.\<close>

datatype 'a fetch_outcome =
    Response nat "'a option"
  | TimeoutError
  | NetworkError

type_synonym 'a endpoint = "nat \<Rightarrow> int \<times> 'a fetch_outcome"

text \<open>The client with the part of the world it acts on: \<open>clock\<close> is \<open>Date.now()\<close>, and
  \<open>trace\<close> records every \<open>setTimeout\<close> sleep and every \<open>fetch\<close> in the order they happen.\<close>

datatype event = Slept int | Requested

record cloud_session =
  sessionKey :: string
  orgId :: "string option"
  available :: bool
  lastRequestTime :: int
  clock :: int
  trace :: "event list"

definition REQUEST_DELAY_MS :: int where
  "REQUEST_DELAY_MS = 100"

definition new_CloudSession :: "string \<Rightarrow> string option \<Rightarrow> int \<Rightarrow> cloud_session" where
  "new_CloudSession key org t =
     \<lparr> sessionKey = key,
       orgId = (if truthy org then org else None),
       available = True,
       lastRequestTime = 0,
       clock = t,
       trace = [] \<rparr>"

definition markUnavailable :: "cloud_session \<Rightarrow> cloud_session" where
  "markUnavailable s = s\<lparr>available := False\<rparr>"

definition sleep :: "int \<Rightarrow> cloud_session \<Rightarrow> cloud_session" where
  "sleep ms s = s\<lparr>clock := clock s + ms, trace := trace s @ [Slept ms]\<rparr>"

definition requests :: "cloud_session \<Rightarrow> nat" where
  "requests s = length (filter (\<lambda>e. e = Requested) (trace s))"

text \<open>The retry loop of \<open>fetchApi\<close>, from attempt number \<open>attempt\<close> on.\<close>

function fetch_attempts :: "'a endpoint \<Rightarrow> nat \<Rightarrow> cloud_session \<Rightarrow> 'a option \<times> cloud_session" where
  "fetch_attempts api attempt s =
     (if attempt < 3 then
        (let s1 = s\<lparr>lastRequestTime := clock s\<rparr>;
             answer = api (requests s1);
             s2 = s1\<lparr>clock := clock s1 + fst answer, trace := trace s1 @ [Requested]\<rparr>
         in case snd answer of
              Response status body \<Rightarrow>
                if status = 401 \<or> status = 403 then (None, markUnavailable s2)
                else if status = 429
                  then fetch_attempts api (attempt + 1) (sleep (2 ^ (attempt + 1) * 1000) s2)
                else if \<not> (200 \<le> status \<and> status \<le> 299) then (None, s2)
                else (case body of
                        Some payload \<Rightarrow> (Some payload, s2)
                      | None \<Rightarrow>
                          fetch_attempts api (attempt + 1)
                            (if attempt < 2 then sleep (2 ^ (attempt + 1) * 1000) s2 else s2))
            | TimeoutError \<Rightarrow> (None, s2)
            | NetworkError \<Rightarrow>
                fetch_attempts api (attempt + 1)
                  (if attempt < 2 then sleep (2 ^ (attempt + 1) * 1000) s2 else s2))
      else (None, s))"
  by pat_completeness auto
termination
  by (relation "measure (\<lambda>(api, attempt, s). 3 - attempt)") auto

definition fetchApi :: "'a endpoint \<Rightarrow> cloud_session \<Rightarrow> 'a option \<times> cloud_session" where
  "fetchApi api s =
     (if \<not> available s then (None, s)
      else
        (let elapsed = clock s - lastRequestTime s
         in fetch_attempts api 0
              (if elapsed < REQUEST_DELAY_MS then sleep (REQUEST_DELAY_MS - elapsed) s else s)))"

definition getOrgId ::
  "cloud_organization list endpoint \<Rightarrow> cloud_session \<Rightarrow> string option \<times> cloud_session" where
  "getOrgId api s =
     (if truthy (orgId s) then (orgId s, s)
      else
        (case fetchApi api s of
           (Some (firstOrg # others), s1) \<Rightarrow>
             (Some (org_uuid firstOrg), s1\<lparr>orgId := Some (org_uuid firstOrg)\<rparr>)
         | (_, s1) \<Rightarrow> (None, markUnavailable s1)))"

section \<open>Remote source (sources/claude-api.ts)\<close>

text \<open>The endpoints of the remote API the source reads.\<close>

record network =
  organizations_api :: "cloud_organization list endpoint"
  conversation_api :: "string \<Rightarrow> string \<Rightarrow> cloud_conversation_detail endpoint"





section \<open>Query orchestration (tools/)\<close>

text \<open>A source behind the \<open>ConversationSource\<close> interface: its type, its current state, and
  its methods as functions of that state. A method call settles as a rejection (\<open>Inl\<close>) or
  a value (\<open>Inr\<close>) and leaves the source in a new state.\<close>

datatype error = Error string

record 'st conversation_source =
  source_kind :: source_type
  state :: 'st
  isAvailable :: "'st \<Rightarrow> bool"
  listProjects_m :: "'st \<Rightarrow> (error + project list) \<times> 'st"
  listSessions_m :: "list_sessions_options \<Rightarrow> 'st \<Rightarrow> (error + session list) \<times> 'st"
  getConversation_m :: "get_conversation_options \<Rightarrow> 'st \<Rightarrow> (error + conversation option) \<times> 'st"
  search_m :: "search_options \<Rightarrow> 'st \<Rightarrow> (error + search_result list) \<times> 'st"

text \<open>\<open>Promise.all\<close> rejects as soon as one promise rejects; \<open>p.catch(() => d)\<close> turns a
  rejection into the value \<open>d\<close>.\<close>

fun promise_all :: "(error + 'a) list \<Rightarrow> error + 'a list" where
  "promise_all [] = Inr []"
| "promise_all (Inl e # ps) = Inl e"
| "promise_all (Inr v # ps) = (case promise_all ps of Inl e \<Rightarrow> Inl e | Inr vs \<Rightarrow> Inr (v # vs))"

definition catch_with :: "'a \<Rightarrow> error + 'a \<Rightarrow> error + 'a" where
  "catch_with d p = (case p of Inl e \<Rightarrow> Inr d | Inr v \<Rightarrow> Inr v)"

datatype source_filter = Only source_type | All

definition active_sources ::
  "source_filter \<Rightarrow> 'st conversation_source list \<Rightarrow> 'st conversation_source list" where
  "active_sources sourceFilter sources0 =
     filter (\<lambda>s. isAvailable s (state s) \<and> (sourceFilter = All \<or> Only (source_kind s) = sourceFilter))
       sources0"

subsection \<open>list-projects.ts\<close>

definition by_lastActivity_desc :: "project \<Rightarrow> project \<Rightarrow> int" where
  "by_lastActivity_desc a b = time_diff (lastActivity b) (lastActivity a)"

definition listProjects ::
  "'st conversation_source list \<Rightarrow> source_filter option \<Rightarrow> error + project list" where
  "listProjects sources0 source_arg =
     (let sourceFilter = (case source_arg of Some f \<Rightarrow> f | None \<Rightarrow> All);
          activeSources = active_sources sourceFilter sources0
      in case promise_all
                (map (\<lambda>s. catch_with [] (fst (listProjects_m s (state s)))) activeSources) of
           Inl e \<Rightarrow> Inl e
         | Inr projectArrays \<Rightarrow> Inr (array_sort by_lastActivity_desc (concat projectArrays)))"

subsection \<open>list-sessions.ts\<close>

record list_sessions_args =
  la_source :: "source_filter option"
  la_projectPath :: "string option"
  la_projectId :: "string option"
  la_startDate :: "string option"
  la_endDate :: "string option"
  la_timezone :: "string option"
  la_limit :: "nat option"
  la_offset :: "nat option"

text \<open>The options every selected source is called with.\<close>

definition listSessions_opts :: "list_sessions_args \<Rightarrow> list_sessions_options" where
  "listSessions_opts args =
     (let limit = (case la_limit args of Some l \<Rightarrow> l | None \<Rightarrow> 50);
          offset = (case la_offset args of Some k \<Rightarrow> k | None \<Rightarrow> 0)
      in \<lparr> ls_projectPath = la_projectPath args,
           ls_projectId = la_projectId args,
           ls_startDate = la_startDate args,
           ls_endDate = la_endDate args,
           ls_timezone = la_timezone args,
           ls_limit = Some (limit + offset),
           ls_offset = Some 0 \<rparr>)"

definition listSessions ::
  "'st conversation_source list \<Rightarrow> list_sessions_args \<Rightarrow> error + list_sessions_response" where
  "listSessions sources0 args =
     (let sourceFilter = (case la_source args of Some f \<Rightarrow> f | None \<Rightarrow> All);
          limit = (case la_limit args of Some l \<Rightarrow> l | None \<Rightarrow> 50);
          offset = (case la_offset args of Some k \<Rightarrow> k | None \<Rightarrow> 0);
          activeSources = active_sources sourceFilter sources0;
          opts = listSessions_opts args
      in case promise_all
                (map (\<lambda>s. catch_with [] (fst (listSessions_m s opts (state s)))) activeSources) of
           Inl e \<Rightarrow> Inl e
         | Inr sessionArrays \<Rightarrow>
             (let allSessions = array_sort by_updatedAt_desc (concat sessionArrays);
                  totalCount = length allSessions;
                  paginated = slice allSessions (int offset) (int (offset + limit));
                  hasMore = (offset + limit < totalCount)
              in Inr \<lparr> sessions = paginated,
                       pagination = \<lparr> total_count = totalCount,
                                      page_limit = limit,
                                      page_offset = offset,
                                      has_more = hasMore \<rparr> \<rparr>))"

subsection \<open>search.ts\<close>

record search_conversations_args =
  sa_query :: string
  sa_source :: "source_filter option"
  sa_projectPath :: "string option"
  sa_projectId :: "string option"
  sa_startDate :: "string option"
  sa_endDate :: "string option"
  sa_timezone :: "string option"
  sa_limit :: "nat option"

text \<open>The options every selected source is called with.\<close>

definition searchConversations_opts :: "search_conversations_args \<Rightarrow> search_options" where
  "searchConversations_opts args =
     \<lparr> so_query = sa_query args,
       so_projectPath = sa_projectPath args,
       so_projectId = sa_projectId args,
       so_startDate = sa_startDate args,
       so_endDate = sa_endDate args,
       so_timezone = sa_timezone args,
       so_limit = Some (case sa_limit args of Some l \<Rightarrow> l | None \<Rightarrow> 30) \<rparr>"

definition searchConversations ::
  "'st conversation_source list \<Rightarrow> search_conversations_args
     \<Rightarrow> error + search_conversations_response" where
  "searchConversations sources0 args =
     (let sourceFilter = (case sa_source args of Some f \<Rightarrow> f | None \<Rightarrow> All);
          limit = (case sa_limit args of Some l \<Rightarrow> l | None \<Rightarrow> 30);
          activeSources = active_sources sourceFilter sources0;
          sourcesSearched = map source_kind activeSources;
          opts = searchConversations_opts args
      in case promise_all
                (map (\<lambda>s. catch_with [] (fst (search_m s opts (state s)))) activeSources) of
           Inl e \<Rightarrow> Inl e
         | Inr resultArrays \<Rightarrow>
             (let allResults = array_sort by_result_timestamp_desc (concat resultArrays)
              in Inr \<lparr> results = slice allResults 0 (int limit),
                       sources_searched = sourcesSearched \<rparr>))"

subsection \<open>get-conversation.ts\<close>







subsection \<open>The local source behind the interface\<close>

text \<open>The local source as an object of the interface: always available, its methods never
  reject, and a call leaves the directory tree it reads as it was.\<close>

definition ClaudeCodeSource :: "engine \<Rightarrow> projects_dir \<Rightarrow> projects_dir conversation_source" where
  "ClaudeCodeSource E fs =
     \<lparr> source_kind = code,
       state = fs,
       isAvailable = (\<lambda>st. True),
       listProjects_m = (\<lambda>st. (Inr (ClaudeCodeSource_listProjects st), st)),
       listSessions_m = (\<lambda>options st. (Inr (ClaudeCodeSource_listSessions E st options), st)),
       getConversation_m = (\<lambda>options st. (Inr (ClaudeCodeSource_getConversation st options), st)),
       search_m = (\<lambda>options st. (Inr (ClaudeCodeSource_search E st options), st)) \<rparr>"

section \<open>Notions used to state the properties\<close>

text \<open>The character map of \<open>decodeProjectPath\<close>: a hyphen becomes a slash.\<close>

definition slash :: "char \<Rightarrow> char" where
  "slash c = (if c = CHR ''-'' then CHR ''/'' else c)"


text \<open>The life of one client instance: a sequence of calls on it. \<open>run_calls\<close> returns the
  results of the \<open>fetchApi\<close> calls in order, and the instance after the last call.\<close>

datatype 'a client_call =
    Call_fetchApi "'a endpoint"
  | Call_getOrgId "cloud_organization list endpoint"
  | Call_markUnavailable

fun run_calls :: "'a client_call list \<Rightarrow> cloud_session \<Rightarrow> 'a option list \<times> cloud_session" where
  "run_calls [] s = ([], s)"
| "run_calls (Call_fetchApi api # rest) s =
     (let answer = fetchApi api s; later = run_calls rest (snd answer)
      in (fst answer # fst later, snd later))"
| "run_calls (Call_getOrgId api # rest) s = run_calls rest (snd (getOrgId api s))"
| "run_calls (Call_markUnavailable # rest) s = run_calls rest (markUnavailable s)"

text \<open>Notions for the retries of \<open>fetchApi\<close>. \<open>rate_limited_at\<close>: the \<open>n\<close>-th request is
  answered with status 429. \<open>succeeds_at\<close>: it is answered with a status from 200 to 299 and
  a body that parses to the payload. \<open>backoff_events k\<close>: what \<open>k\<close> rate-limited attempts
  from attempt \<open>0\<close> on leave in the trace, a request and then a sleep of \<open>2 ^ (attempt + 1)\<close>
  seconds each. \<open>slept\<close>: the durations of the sleeps of a trace, in order.
  \<open>request_delay\<close>: the sleep that keeps \<open>REQUEST_DELAY_MS\<close> between two requests, if any.
  \<open>after_request\<close>: the client once one request has been sent and answered.\<close>

definition backoff_events :: "nat \<Rightarrow> event list" where
  "backoff_events k =
     concat (map (\<lambda>attempt. [Requested, Slept (2 ^ (attempt + 1) * 1000)]) [0..<k])"

definition rate_limited_at :: "'a endpoint \<Rightarrow> nat \<Rightarrow> bool" where
  "rate_limited_at api n = (case snd (api n) of Response status body \<Rightarrow> status = 429 | _ \<Rightarrow> False)"

definition succeeds_at :: "'a endpoint \<Rightarrow> nat \<Rightarrow> 'a \<Rightarrow> bool" where
  "succeeds_at api n payload =
     (case snd (api n) of
        Response status body \<Rightarrow> 200 \<le> status \<and> status \<le> 299 \<and> body = Some payload
      | _ \<Rightarrow> False)"

definition slept :: "event list \<Rightarrow> int list" where
  "slept es = concat (map (\<lambda>e. case e of Slept ms \<Rightarrow> [ms] | Requested \<Rightarrow> []) es)"

definition request_delay :: "cloud_session \<Rightarrow> event list" where
  "request_delay s =
     (if clock s - lastRequestTime s < REQUEST_DELAY_MS
      then [Slept (REQUEST_DELAY_MS - (clock s - lastRequestTime s))] else [])"

definition after_request :: "'a endpoint \<Rightarrow> cloud_session \<Rightarrow> cloud_session" where
  "after_request api s =
     s\<lparr>lastRequestTime := clock s, clock := clock s + fst (api (requests s)),
       trace := trace s @ [Requested]\<rparr>"



text \<open>What a selected source contributes to a fan-out: its list, or nothing when it
  rejects.\<close>

fun contribution :: "error + 'a list \<Rightarrow> 'a list" where
  "contribution (Inl e) = []"
| "contribution (Inr xs) = xs"



text \<open>The page a caller of \<open>listSessions\<close> asks for, and the merged list: what the selected
  sources return for the options they are called with, one source after the other.\<close>

definition requested_limit :: "list_sessions_args \<Rightarrow> nat" where
  "requested_limit args = (case la_limit args of Some l \<Rightarrow> l | None \<Rightarrow> 50)"

definition requested_offset :: "list_sessions_args \<Rightarrow> nat" where
  "requested_offset args = (case la_offset args of Some k \<Rightarrow> k | None \<Rightarrow> 0)"

definition merged_sessions :: "'st conversation_source list \<Rightarrow> list_sessions_args \<Rightarrow> session list" where
  "merged_sessions sources0 args =
     concat (map (\<lambda>s. contribution (fst (listSessions_m s (listSessions_opts args) (state s))))
               (active_sources (case la_source args of Some f \<Rightarrow> f | None \<Rightarrow> All) sources0))"


section \<open>Example data\<close>

text \<open>An engine for the examples: UTC as the system zone, and \<open>toISOString\<close> on the time
  values the examples use.\<close>

definition example_engine :: engine where
  "example_engine =
     \<lparr> systemTimeZone = ''UTC'',
       toISOString = (\<lambda>t. if t = 1751277600000 then ''2025-06-30T10:00:00.000Z''
                           else if t = 1751277660000 then ''2025-06-30T10:01:00.000Z''
                           else if t = 1751209200000 then ''2025-06-29T15:00:00.000Z''
                           else ''2025-06-30T10:00:05.000Z''),
       zoneBoundary = (\<lambda>d isEnd tz. None) \<rparr>"

definition example_record :: "string \<Rightarrow> string \<Rightarrow> string \<Rightarrow> string \<Rightarrow> string \<Rightarrow> int
    \<Rightarrow> claude_code_message" where
  "example_record sid ty text0 uid stamp t =
     \<lparr> entry_sessionId = sid, entry_type = ty, entry_content = Some (Text text0),
       uuid = uid, entry_timestamp = stamp, entry_time = t \<rparr>"

text \<open>The tree of the integration tests: two projects with one session each.\<close>

definition example_dirs :: "project_entry list" where
  "example_dirs =
     [\<lparr> entry_name = ''Users-test-project1'', isDirectory = True,
        entry_files =
          [\<lparr> file_name = ''session1.jsonl'', mtime = 1751277660000, birthtime = 1751277600000,
             file_lines =
               [Parsed (example_record ''session1'' ''user''
                          ''API integration with payment gateway'' ''msg1''
                          ''2025-06-30T10:00:00.000Z'' 1751277600000),
                Parsed (example_record ''session1'' ''assistant''
                          ''I can help you with API integration for the payment gateway.'' ''msg2''
                          ''2025-06-30T10:01:00.000Z'' 1751277660000)] \<rparr>] \<rparr>,
      \<lparr> entry_name = ''Users-test-project2'', isDirectory = True,
        entry_files =
          [\<lparr> file_name = ''session2.jsonl'', mtime = 1751209200000, birthtime = 1751209200000,
             file_lines =
               [Parsed (example_record ''session2'' ''user''
                          ''Database schema design for user management'' ''msg3''
                          ''2025-06-29T15:00:00.000Z'' 1751209200000)] \<rparr>] \<rparr>]"

definition example_projects :: projects_dir where
  "example_projects = Some example_dirs"

text \<open>A session whose file holds a blank line, a line that is not JSON, and four records
  out of time order, one of them of type \<open>system\<close> and one of type \<open>result\<close>.\<close>

definition example_session3 :: dir_file where
  "example_session3 =
     \<lparr> file_name = ''session3.jsonl'', mtime = 1751277660000, birthtime = 1751277600000,
       file_lines =
         [Parsed (example_record ''session3'' ''assistant'' ''second'' ''m2''
                    ''2025-06-30T10:00:05.000Z'' 1751277605000),
          Blank,
          Parsed (example_record ''session3'' ''system'' ''hook'' ''m0''
                    ''2025-06-29T15:00:00.000Z'' 1751209200000),
          Malformed,
          Parsed (example_record ''session3'' ''user'' ''first'' ''m1''
                    ''2025-06-30T10:00:00.000Z'' 1751277600000),
          Parsed (example_record ''session3'' ''result'' ''done'' ''m3''
                    ''2025-06-30T10:01:00.000Z'' 1751277660000)] \<rparr>"

definition example_my_app :: project_entry where
  "example_my_app =
     \<lparr> entry_name = ''-home-user-my-app'', isDirectory = True,
       entry_files = [example_session3] \<rparr>"

definition example_mixed :: projects_dir where
  "example_mixed = Some [example_my_app]"


definition no_list_options :: list_sessions_options where
  "no_list_options =
     \<lparr> ls_projectPath = None, ls_projectId = None, ls_startDate = None, ls_endDate = None,
       ls_timezone = None, ls_limit = None, ls_offset = None \<rparr>"

definition search_for :: "string \<Rightarrow> search_options" where
  "search_for q =
     \<lparr> so_query = q, so_projectPath = None, so_projectId = None, so_startDate = None,
       so_endDate = None, so_timezone = None, so_limit = Some 10 \<rparr>"


text \<open>Servers for the remote client: one that answers 429 to the first \<open>k\<close> requests and
  then succeeds with a payload, one that answers 401 to everything, and a remote API with
  one organization and one conversation whose messages arrive newest first.\<close>

definition rate_limited :: "nat \<Rightarrow> 'a \<Rightarrow> 'a endpoint" where
  "rate_limited k payload = (\<lambda>n. (20, if n < k then Response 429 None else Response 200 (Some payload)))"

definition unauthorized :: "'a endpoint" where
  "unauthorized = (\<lambda>n. (20, Response 401 None))"

definition example_network :: network where
  "example_network =
     \<lparr> organizations_api = (\<lambda>n. (20, Response 200 (Some [\<lparr> org_uuid = ''org-1'', org_name = ''Org'' \<rparr>]))),
       conversation_api = (\<lambda>org sid n. (20, Response 200 (Some
          \<lparr> cd_uuid = sid, cd_name = ''Chat'', cd_created_at = 1751209200000,
            cd_updated_at = 1751277660000,
            chat_messages = Some
              [\<lparr> cm_uuid = ''c2'', sender = ''assistant'', cm_text = ''answer'',
                 cm_created_at = 1751277660000, cm_content = None \<rparr>,
               \<lparr> cm_uuid = ''c1'', sender = ''human'', cm_text = ''question'',
                 cm_created_at = 1751277600000, cm_content = None \<rparr>] \<rparr>))) \<rparr>"

text \<open>Sources for the orchestration examples: one that rejects every call, and one that
  answers every \<open>getConversation\<close> with the same remote conversation.\<close>

definition failing_source :: "projects_dir conversation_source" where
  "failing_source =
     \<lparr> source_kind = cloud,
       state = None,
       isAvailable = (\<lambda>st. True),
       listProjects_m = (\<lambda>st. (Inl (Error ''fetch failed''), st)),
       listSessions_m = (\<lambda>options st. (Inl (Error ''fetch failed''), st)),
       getConversation_m = (\<lambda>options st. (Inl (Error ''fetch failed''), st)),
       search_m = (\<lambda>options st. (Inl (Error ''fetch failed''), st)) \<rparr>"



definition list_args :: "nat \<Rightarrow> nat \<Rightarrow> list_sessions_args" where
  "list_args l k =
     \<lparr> la_source = None, la_projectPath = None, la_projectId = None, la_startDate = None,
       la_endDate = None, la_timezone = None, la_limit = Some l, la_offset = Some k \<rparr>"

definition search_args :: "string \<Rightarrow> search_conversations_args" where
  "search_args q =
     \<lparr> sa_query = q, sa_source = None, sa_projectPath = None, sa_projectId = None,
       sa_startDate = None, sa_endDate = None, sa_timezone = None, sa_limit = None \<rparr>"


section \<open>Properties of the primitives\<close>

declare search_batches.simps [simp del]
declare fetch_attempts.simps [simp del]

lemma slice_nat: "slice xs (int a) (int b) = take (b - a) (drop a xs)"
proof (cases "a \<le> length xs")
  case True
  then show ?thesis
    by (cases "b \<le> length xs") (auto simp: slice_def relative_index_def Let_def min_def nat_diff_distrib')
next
  case False
  then show ?thesis
    by (auto simp: slice_def relative_index_def Let_def min_def)
qed

lemma slice_page: "slice xs (int a) (int a + int b) = take b (drop a xs)"
  using slice_nat [of xs a "a + b"] by simp

lemma slice_zero: "slice xs 0 (int b) = take b xs"
  using slice_nat [of xs 0 b] by simp



lemma length_insert_by: "length (insert_by cmp x ys) = Suc (length ys)"
  by (induction ys) auto

lemma length_array_sort: "length (array_sort cmp xs) = length xs"
  by (induction xs) (auto simp: array_sort_def length_insert_by)





lemma indexOf_ge: "- 1 \<le> indexOf h n"
  by (induction h) (auto simp: Let_def)








section \<open>Project paths\<close>

lemma decode_no_hyphen: "CHR ''-'' \<notin> set (decodeProjectPath d)"
proof -
  have "CHR ''-'' \<notin> set (map (\<lambda>c. if c = CHR ''-'' then CHR ''/'' else c) d)"
    by auto
  then show ?thesis
    unfolding decodeProjectPath_def by (auto split: list.splits)
qed

lemma decode_shape:
  "decodeProjectPath d =
     (case d of [] \<Rightarrow> []
      | c # cs \<Rightarrow> if c = CHR ''-'' \<or> c = CHR ''/'' then map slash cs else map slash (c # cs))"
  by (cases d) (auto simp: decodeProjectPath_def slash_def)

lemma project_sessions_hyphen:
  assumes "CHR ''-'' \<in> set p"
  shows "project_sessions E (Some p) sd ed projectDir = []"
proof -
  have "decodeProjectPath (entry_name projectDir) \<noteq> p"
    using assms decode_no_hyphen by metis
  moreover have "p \<noteq> []" using assms by auto
  ultimately show ?thesis by (simp add: project_sessions_def)
qed

lemma project_files_hyphen:
  assumes "CHR ''-'' \<in> set p"
  shows "project_files (Some p) projectDir = []"
proof -
  have "decodeProjectPath (entry_name projectDir) \<noteq> p"
    using assms decode_no_hyphen by metis
  moreover have "p \<noteq> []" using assms by auto
  ultimately show ?thesis by (simp add: project_files_def)
qed

lemma collected_sessions_hyphen:
  assumes "CHR ''-'' \<in> set p"
  shows "concat (map (project_sessions E (Some p) sd ed) ds) = []"
  using assms by (induction ds) (simp_all add: project_sessions_hyphen)

lemma collected_files_hyphen:
  assumes "CHR ''-'' \<in> set p"
  shows "concat (map (project_files (Some p)) ds) = []"
  using assms by (induction ds) (simp_all add: project_files_hyphen)

lemma listSessions_hyphen:
  assumes "CHR ''-'' \<in> set p"
  shows "ClaudeCodeSource_listSessions E fs (options\<lparr>ls_projectPath := Some p\<rparr>) = []"
  using assms
  by (cases fs) (simp_all add: ClaudeCodeSource_listSessions_def collected_sessions_hyphen
      array_sort_def slice_page Let_def)

lemma search_hyphen:
  assumes "CHR ''-'' \<in> set p"
  shows "ClaudeCodeSource_search E fs (options\<lparr>so_projectPath := Some p\<rparr>) = []"
  using assms
  by (cases fs) (simp_all add: ClaudeCodeSource_search_def collected_files_hyphen
      search_batches.simps array_sort_def slice_zero Let_def)

text \<open>Claim C10. For every encoded project directory name, the decoded project path has no
  hyphen: every hyphen has become a slash, and one leading slash is gone. So a
  \<open>projectPath\<close> filter that contains a hyphen equals no decoded path: \<open>listSessions\<close> and
  \<open>search\<close> of the local source then select no project directory and return nothing.\<close>

theorem decodeProjectPath_hyphen_free:
  "CHR ''-'' \<notin> set (decodeProjectPath projectDir)
   \<and> decodeProjectPath projectDir =
       (case projectDir of [] \<Rightarrow> []
        | c # cs \<Rightarrow> if c = CHR ''-'' \<or> c = CHR ''/'' then map slash cs else map slash (c # cs))
   \<and> (CHR ''-'' \<in> set projectPath \<longrightarrow>
        ClaudeCodeSource_listSessions E fs (options\<lparr>ls_projectPath := Some projectPath\<rparr>) = []
        \<and> ClaudeCodeSource_search E fs (soptions\<lparr>so_projectPath := Some projectPath\<rparr>) = [])"
  using decode_no_hyphen decode_shape listSessions_hyphen search_hyphen by blast

theorem decodeProjectPath_hyphen_free_witness:
  "CHR ''-'' \<in> set ''home/user/my-app''
   \<and> decodeProjectPath ''-home-user-my-app'' = ''home/user/my/app''
   \<and> ClaudeCodeSource_listSessions example_engine example_mixed
         (no_list_options\<lparr>ls_projectPath := Some ''home/user/my-app''\<rparr>) = []
   \<and> ClaudeCodeSource_search example_engine example_mixed
         ((search_for ''first'')\<lparr>so_projectPath := Some ''home/user/my-app''\<rparr>) = []"
  using decodeProjectPath_hyphen_free [of "''-home-user-my-app''" "''home/user/my-app''"
      example_engine example_mixed no_list_options "search_for ''first''"]
  by (simp add: slash_def)

section \<open>Snippets of the local search\<close>










section \<open>Message order of a conversation\<close>








section \<open>Availability and retries of the remote client\<close>

lemma markUnavailable_idem: "\<not> available s \<Longrightarrow> markUnavailable s = s"
  by (simp add: markUnavailable_def)

lemma fetchApi_unavailable: "\<not> available s \<Longrightarrow> fetchApi api s = (None, s)"
  by (simp add: fetchApi_def)

lemma getOrgId_unavailable: "\<not> available s \<Longrightarrow> snd (getOrgId api s) = s"
  by (simp add: getOrgId_def fetchApi_unavailable markUnavailable_idem)

lemma run_calls_unavailable:
  assumes "\<not> available s"
  shows "snd (run_calls calls s) = s \<and> list_all (\<lambda>r. r = None) (fst (run_calls calls s))"
  using assms
proof (induction calls)
  case Nil
  then show ?case by simp
next
  case (Cons c calls)
  then show ?case
    by (cases c)
      (simp_all add: Let_def fetchApi_unavailable getOrgId_unavailable markUnavailable_idem)
qed

lemma requests_sleep [simp]: "requests (sleep ms s) = requests s"
  by (simp add: requests_def sleep_def)

lemma available_sleep [simp]: "available (sleep ms s) = available s"
  by (simp add: sleep_def)

lemma fetch_attempts_denied:
  assumes "attempt < 3" and "snd (api (requests s)) = Response status body"
    and "status = 401 \<or> status = 403"
  shows "fst (fetch_attempts api attempt s) = None
         \<and> \<not> available (snd (fetch_attempts api attempt s))
         \<and> trace (snd (fetch_attempts api attempt s)) = trace s @ [Requested]"
  using assms
  by (subst (1 2 3) fetch_attempts.simps)
    (auto simp: Let_def requests_def markUnavailable_def)

lemma fetch_attempts_demotion:
  assumes "available s" and "\<not> available (snd (fetch_attempts api attempt s))"
  shows "\<exists>n body. snd (api n) = Response 401 body \<or> snd (api n) = Response 403 body"
  using assms
proof (induction "3 - attempt" arbitrary: attempt s)
  case 0
  then show ?case by (simp add: fetch_attempts.simps)
next
  case (Suc k)
  have later: "\<exists>n body. snd (api n) = Response 401 body \<or> snd (api n) = Response 403 body"
    if "available s'" "\<not> available (snd (fetch_attempts api (Suc attempt) s'))" for s'
    using Suc.hyps(1) [of "Suc attempt" s'] Suc.hyps(2) that by simp
  from Suc.hyps(2) have "attempt < 3" by simp
  with Suc.prems show ?case
    by (subst (asm) fetch_attempts.simps)
      (auto simp: Let_def markUnavailable_def split: if_splits fetch_outcome.splits option.splits
        dest!: later [rotated])
qed

lemma fetch_attempts_success:
  assumes "available s" and "fst (fetch_attempts api attempt s) = Some payload"
  shows "available (snd (fetch_attempts api attempt s))"
  using assms
proof (induction "3 - attempt" arbitrary: attempt s)
  case 0
  then show ?case by (simp add: fetch_attempts.simps)
next
  case (Suc k)
  have later: "available (snd (fetch_attempts api (Suc attempt) s'))"
    if "fst (fetch_attempts api (Suc attempt) s') = Some payload" "available s'" for s'
    using Suc.hyps(1) [of "Suc attempt" s'] Suc.hyps(2) that by simp
  from Suc.hyps(2) have "attempt < 3" by simp
  with Suc.prems show ?case
    by (subst fetch_attempts.simps, subst (asm) fetch_attempts.simps)
      (auto simp: Let_def markUnavailable_def split: if_splits fetch_outcome.splits option.splits
        intro!: later)
qed

lemma fetchApi_demotion:
  assumes "available s" and "\<not> available (snd (fetchApi api s))"
  shows "\<exists>n body. snd (api n) = Response 401 body \<or> snd (api n) = Response 403 body"
proof -
  define s' where "s' = (if clock s - lastRequestTime s < REQUEST_DELAY_MS
                         then sleep (REQUEST_DELAY_MS - (clock s - lastRequestTime s)) s else s)"
  have "available s'" using assms(1) by (simp add: s'_def)
  moreover have "\<not> available (snd (fetch_attempts api 0 s'))"
    using assms by (simp add: fetchApi_def Let_def s'_def)
  ultimately show ?thesis by (rule fetch_attempts_demotion)
qed

lemma fetchApi_success:
  assumes "available s" and "fst (fetchApi api s) = Some payload"
  shows "available (snd (fetchApi api s))"
proof -
  define s' where "s' = (if clock s - lastRequestTime s < REQUEST_DELAY_MS
                         then sleep (REQUEST_DELAY_MS - (clock s - lastRequestTime s)) s else s)"
  have eq: "fetchApi api s = fetch_attempts api 0 s'"
    using assms(1) by (simp add: fetchApi_def Let_def s'_def)
  have "available s'" using assms(1) by (simp add: s'_def)
  with assms(2) show ?thesis unfolding eq by (rule fetch_attempts_success [rotated])
qed

lemma getOrgId_failed:
  assumes "fst (getOrgId api s) = None"
  shows "\<not> available (snd (getOrgId api s))"
  using assms
  by (cases "orgId s")
    (auto simp: getOrgId_def markUnavailable_def split: prod.splits option.splits list.splits
      if_splits)

lemma getOrgId_demotion:
  assumes "available s" and "\<not> available (snd (getOrgId api s))"
  shows "fst (getOrgId api s) = None"
proof (rule ccontr)
  assume "fst (getOrgId api s) \<noteq> None"
  then obtain org where org: "fst (getOrgId api s) = Some org" by auto
  show False
  proof (cases "truthy (orgId s)")
    case True
    with assms show False by (simp add: getOrgId_def)
  next
    case False
    with org obtain firstOrg others s1 where
        fetched: "fetchApi api s = (Some (firstOrg # others), s1)"
      by (auto simp: getOrgId_def split: prod.splits option.splits list.splits)
    with False have "snd (getOrgId api s) = s1\<lparr>orgId := Some (org_uuid firstOrg)\<rparr>"
      by (simp add: getOrgId_def)
    moreover have "available s1"
      using fetchApi_success [OF assms(1), of api "firstOrg # others"] fetched by simp
    ultimately show False using assms(2) by simp
  qed
qed

text \<open>Claim C4. A new client is available. Once it is not available, \<open>fetchApi\<close> returns no
  result and leaves the client as it was, so no request is sent and nothing is slept; the
  same holds for every later call in the life of the instance, and the flag never comes
  back (\<open>run_calls\<close>). A 401 or 403 response at any attempt ends the call with no result
  after that one request and makes the client unavailable; \<open>fetchApi\<close> makes it
  unavailable in no other case, and \<open>getOrgId\<close> does so exactly when it returns no
  organization.\<close>

theorem availability_one_way:
  "available (new_CloudSession key org t)
   \<and> (\<not> available s \<longrightarrow> fetchApi api s = (None, s))
   \<and> (\<not> available s \<longrightarrow>
        snd (run_calls calls s) = s \<and> list_all (\<lambda>r. r = None) (fst (run_calls calls s)))
   \<and> (available (snd (run_calls calls s)) \<longrightarrow> available s)
   \<and> (attempt < 3 \<and> snd (api (requests s)) = Response status body
        \<and> (status = 401 \<or> status = 403) \<longrightarrow>
        fst (fetch_attempts api attempt s) = None
        \<and> \<not> available (snd (fetch_attempts api attempt s))
        \<and> trace (snd (fetch_attempts api attempt s)) = trace s @ [Requested])
   \<and> (available s \<and> \<not> available (snd (fetchApi api s)) \<longrightarrow>
        (\<exists>n body. snd (api n) = Response 401 body \<or> snd (api n) = Response 403 body))
   \<and> (fst (getOrgId orgs s) = None \<longrightarrow> \<not> available (snd (getOrgId orgs s)))
   \<and> (available s \<and> \<not> available (snd (getOrgId orgs s)) \<longrightarrow> fst (getOrgId orgs s) = None)"
proof -
  have "available (new_CloudSession key org t)"
    by (simp add: new_CloudSession_def)
  moreover have "available (snd (run_calls calls s)) \<longrightarrow> available s"
  proof (cases "available s")
    case True
    then show ?thesis by simp
  next
    case False
    with run_calls_unavailable [OF False, of calls] show ?thesis by simp
  qed
  ultimately show ?thesis
    using fetchApi_unavailable [of s api] run_calls_unavailable [of s calls]
      fetch_attempts_denied [of attempt api s status body] fetchApi_demotion [of s api]
      getOrgId_failed [of orgs s] getOrgId_demotion [of s orgs]
    by (intro conjI impI) (simp_all only: simp_thms)
qed

lemma example_denied:
  "snd (fetchApi (unauthorized :: string endpoint) (new_CloudSession ''key'' None 1000)) =
     \<lparr> sessionKey = ''key'', orgId = None, available = False, lastRequestTime = 1000,
       clock = 1020, trace = [Requested] \<rparr>"
  by code_simp

lemma example_org_failed:
  "fst (getOrgId unauthorized (new_CloudSession ''key'' None 1000)) = None"
  by code_simp

theorem availability_one_way_witness:
  "\<not> available (snd (fetchApi (unauthorized :: string endpoint) (new_CloudSession ''key'' None 1000)))
   \<and> snd (run_calls
            [Call_fetchApi (rate_limited 0 ''payload''),
             Call_getOrgId (organizations_api example_network),
             Call_fetchApi (rate_limited 0 ''payload'')]
            (snd (fetchApi (unauthorized :: string endpoint) (new_CloudSession ''key'' None 1000))))
       = snd (fetchApi (unauthorized :: string endpoint) (new_CloudSession ''key'' None 1000))
   \<and> fst (run_calls
            [Call_fetchApi (rate_limited 0 ''payload''),
             Call_getOrgId (organizations_api example_network),
             Call_fetchApi (rate_limited 0 ''payload'')]
            (snd (fetchApi (unauthorized :: string endpoint) (new_CloudSession ''key'' None 1000))))
       = [None, None]
   \<and> fst (fetch_attempts (unauthorized :: string endpoint) 0 (new_CloudSession ''key'' None 1000)) = None
   \<and> trace (snd (fetch_attempts (unauthorized :: string endpoint) 0 (new_CloudSession ''key'' None 1000)))
       = [Requested]
   \<and> \<not> available (snd (getOrgId unauthorized (new_CloudSession ''key'' None 1000)))"
proof -
  define s0 where "s0 = new_CloudSession ''key'' None 1000"
  note fresh = availability_one_way [of "''key''" None 1000 s0 "unauthorized :: string endpoint" "[]"
      0 401 None unauthorized]
  have answer: "0 < (3::nat) \<and> snd ((unauthorized :: string endpoint) (requests s0)) = Response 401 None
      \<and> ((401::nat) = 401 \<or> (401::nat) = 403)"
    by (simp add: unauthorized_def)
  note once = fresh [THEN conjunct2, THEN conjunct2, THEN conjunct2, THEN conjunct2, THEN conjunct1,
      THEN mp, OF answer]
  have no_org: "fst (getOrgId unauthorized s0) = None"
    unfolding s0_def by (rule example_org_failed)
  note lost = fresh [THEN conjunct2, THEN conjunct2, THEN conjunct2, THEN conjunct2, THEN conjunct2,
      THEN conjunct2, THEN conjunct1, THEN mp, OF no_org]
  define s1 where
    "s1 = snd (fetchApi (unauthorized :: string endpoint) (new_CloudSession ''key'' None 1000))"
  define calls where
    "calls = [Call_fetchApi (rate_limited 0 ''payload''),
              Call_getOrgId (organizations_api example_network),
              Call_fetchApi (rate_limited 0 ''payload'')]"
  have denied: "\<not> available s1"
    unfolding s1_def example_denied by simp
  note one_way = availability_one_way [of "''key''" None 1000 s1 unauthorized calls 0 401 None
      "organizations_api example_network"]
  note after = one_way [THEN conjunct2, THEN conjunct2, THEN conjunct1, rule_format, OF denied]
  have kept: "snd (run_calls calls s1) = s1"
    by (rule after [THEN conjunct1])
  have none: "list_all (\<lambda>r. r = None) (fst (run_calls calls s1))"
    by (rule after [THEN conjunct2])
  have "length (fst (run_calls calls s1)) = 2"
    by (simp add: calls_def Let_def)
  with none have "fst (run_calls calls s1) = [None, None]"
    by (cases "fst (run_calls calls s1)"; cases "tl (fst (run_calls calls s1))") auto
  with denied kept once lost show ?thesis
    unfolding s0_def s1_def calls_def by (simp add: new_CloudSession_def)
qed

subsection \<open>Retries after rate limiting\<close>

lemma requests_after_request [simp]: "requests (after_request api s) = Suc (requests s)"
  by (simp add: after_request_def requests_def)

lemma available_after_request [simp]: "available (after_request api s) = available s"
  by (simp add: after_request_def)

lemma trace_after_request [simp]: "trace (after_request api s) = trace s @ [Requested]"
  by (simp add: after_request_def)

lemma trace_sleep [simp]: "trace (sleep ms s) = trace s @ [Slept ms]"
  by (simp add: sleep_def)

lemma fetch_attempts_429:
  assumes "attempt < 3" and "rate_limited_at api (requests s)"
  shows "fetch_attempts api attempt s =
           fetch_attempts api (Suc attempt) (sleep (2 ^ (attempt + 1) * 1000) (after_request api s))"
  using assms
  by (subst fetch_attempts.simps)
    (auto simp: Let_def rate_limited_at_def after_request_def requests_def
      split: fetch_outcome.splits)

lemma fetch_attempts_ok:
  assumes "attempt < 3" and "succeeds_at api (requests s) payload"
  shows "fetch_attempts api attempt s = (Some payload, after_request api s)"
  using assms
  by (subst fetch_attempts.simps)
    (auto simp: Let_def succeeds_at_def after_request_def requests_def
      split: fetch_outcome.splits)

lemma fetch_attempts_exhausted: "fetch_attempts api (Suc (Suc (Suc 0))) s = (None, s)"
  by (subst fetch_attempts.simps) simp

lemma backoff_events_values:
  "backoff_events 0 = []"
  "backoff_events 1 = [Requested, Slept 2000]"
  "backoff_events 2 = [Requested, Slept 2000, Requested, Slept 4000]"
  "backoff_events 3 = [Requested, Slept 2000, Requested, Slept 4000, Requested, Slept 8000]"
  "backoff_events (Suc 0) = [Requested, Slept 2000]"
  "backoff_events (Suc (Suc 0)) = [Requested, Slept 2000, Requested, Slept 4000]"
  "backoff_events (Suc (Suc (Suc 0)))
     = [Requested, Slept 2000, Requested, Slept 4000, Requested, Slept 8000]"
  by code_simp+

lemma retry_success:
  assumes k: "k \<le> 2"
    and limited: "\<forall>i<k. rate_limited_at api (requests s + i)"
    and ok: "succeeds_at api (requests s + k) payload"
  shows "fst (fetch_attempts api 0 s) = Some payload
         \<and> trace (snd (fetch_attempts api 0 s)) = trace s @ backoff_events k @ [Requested]
         \<and> available (snd (fetch_attempts api 0 s)) = available s"
proof -
  from k consider "k = 0" | "k = 1" | "k = 2" by linarith
  then show ?thesis
  proof cases
    case 1
    with ok show ?thesis
      by (simp add: fetch_attempts_ok backoff_events_values)
  next
    case 2
    with limited have l0: "rate_limited_at api (requests s)" by simp
    from 2 ok have "succeeds_at api (requests (sleep 2000 (after_request api s))) payload"
      by simp
    then show ?thesis
      using l0 2 by (simp add: fetch_attempts_429 fetch_attempts_ok backoff_events_values)
  next
    case 3
    with limited [rule_format, of 0] limited [rule_format, of 1]
    have l0: "rate_limited_at api (requests s)"
        and l1: "rate_limited_at api (requests (sleep 2000 (after_request api s)))"
      by simp_all
    from 3 ok have "succeeds_at api
        (requests (sleep 4000 (after_request api (sleep 2000 (after_request api s))))) payload"
      by simp
    then show ?thesis
      using l0 l1 3 by (simp add: fetch_attempts_429 fetch_attempts_ok backoff_events_values)
  qed
qed

lemma retry_exhausted:
  assumes limited: "\<forall>i<3. rate_limited_at api (requests s + i)"
  shows "fst (fetch_attempts api 0 s) = None
         \<and> trace (snd (fetch_attempts api 0 s)) = trace s @ backoff_events 3
         \<and> available (snd (fetch_attempts api 0 s)) = available s"
proof -
  from limited [rule_format, of 0] limited [rule_format, of 1] limited [rule_format, of 2]
  have l0: "rate_limited_at api (requests s)"
      and l1: "rate_limited_at api (requests (sleep 2000 (after_request api s)))"
      and l2: "rate_limited_at api
          (requests (sleep 4000 (after_request api (sleep 2000 (after_request api s)))))"
    by simp_all
  then show ?thesis
    by (simp add: fetch_attempts_429 fetch_attempts_exhausted backoff_events_values
        numeral_3_eq_3)
qed

lemma fetchApi_available:
  assumes "available s"
  shows "\<exists>s'. fetchApi api s = fetch_attempts api 0 s' \<and> requests s' = requests s
           \<and> trace s' = trace s @ request_delay s \<and> available s'"
  using assms by (auto simp: fetchApi_def Let_def request_delay_def)


lemma slept_backoff_events:
  "slept (backoff_events k) = map (\<lambda>attempt. 2 ^ (attempt + 1) * 1000) [0..<k]"
  by (induction k) (simp_all add: backoff_events_def slept_def)

lemma backoff_increasing:
  "sorted_wrt (<) (map (\<lambda>attempt. (2::int) ^ (attempt + 1) * 1000) [0..<k])"
proof -
  have "strict_mono (\<lambda>attempt::nat. (2::int) ^ (attempt + 1) * 1000)"
    by (rule strict_monoI) simp
  then show ?thesis
    by (simp add: sorted_wrt_map strict_mono_def sorted_wrt_upt [unfolded sorted_wrt_iff_nth_less]
        sorted_wrt_iff_nth_less)
qed

text \<open>Claim C1, as amended. \<open>fetchApi\<close> makes at most three attempts. A call on an
  available client that is answered 429 at most twice in a row and then succeeds returns
  the parsed payload; after the 429 at attempt number \<open>a\<close> it sleeps \<open>2 ^ (a + 1)\<close> seconds
  before the next request, so the sleeps grow strictly. A call that is answered 429 three
  times in a row sleeps 2, 4 and 8 seconds, sends no fourth request and returns no result;
  the client stays available.\<close>

theorem fetchApi_retries_429:
  "(available s \<and> k \<le> 2 \<and> (\<forall>i<k. rate_limited_at api (requests s + i))
      \<and> succeeds_at api (requests s + k) payload \<longrightarrow>
        fst (fetchApi api s) = Some payload
        \<and> trace (snd (fetchApi api s)) = trace s @ request_delay s @ backoff_events k @ [Requested])
   \<and> (available s \<and> (\<forall>i<3. rate_limited_at api (requests s + i)) \<longrightarrow>
        fst (fetchApi api s) = None
        \<and> trace (snd (fetchApi api s)) = trace s @ request_delay s @ backoff_events 3
        \<and> available (snd (fetchApi api s)))
   \<and> slept (backoff_events k) = map (\<lambda>attempt. 2 ^ (attempt + 1) * 1000) [0..<k]
   \<and> sorted_wrt (<) (slept (backoff_events k))"
proof (intro conjI impI)
  assume a: "available s \<and> k \<le> 2 \<and> (\<forall>i<k. rate_limited_at api (requests s + i))
      \<and> succeeds_at api (requests s + k) payload"
  then obtain s' where s': "fetchApi api s = fetch_attempts api 0 s'" "requests s' = requests s"
      "trace s' = trace s @ request_delay s"
    using fetchApi_available by blast
  from a s'(2) have "k \<le> 2" "\<forall>i<k. rate_limited_at api (requests s' + i)"
      "succeeds_at api (requests s' + k) payload"
    by simp_all
  from retry_success [OF this] s'
  show "fst (fetchApi api s) = Some payload"
    and "trace (snd (fetchApi api s)) = trace s @ request_delay s @ backoff_events k @ [Requested]"
    by simp_all
next
  assume a: "available s \<and> (\<forall>i<3. rate_limited_at api (requests s + i))"
  then obtain s' where s': "fetchApi api s = fetch_attempts api 0 s'" "requests s' = requests s"
      "trace s' = trace s @ request_delay s" "available s'"
    using fetchApi_available by blast
  from a s'(2) have "\<forall>i<3. rate_limited_at api (requests s' + i)"
    by simp
  from retry_exhausted [OF this] s'
  show "fst (fetchApi api s) = None"
    and "trace (snd (fetchApi api s)) = trace s @ request_delay s @ backoff_events 3"
    and "available (snd (fetchApi api s))"
    by simp_all
next
  show "slept (backoff_events k) = map (\<lambda>attempt. 2 ^ (attempt + 1) * 1000) [0..<k]"
    by (rule slept_backoff_events)
  show "sorted_wrt (<) (slept (backoff_events k))"
    unfolding slept_backoff_events by (rule backoff_increasing)
qed

lemma example_two_429:
  "available (new_CloudSession ''key'' None 1000) \<and> (2::nat) \<le> 2
   \<and> (\<forall>i<2. rate_limited_at (rate_limited 2 ''payload'')
               (requests (new_CloudSession ''key'' None 1000) + i))
   \<and> succeeds_at (rate_limited 2 ''payload'') (requests (new_CloudSession ''key'' None 1000) + 2)
        ''payload''"
  by (simp add: new_CloudSession_def requests_def rate_limited_at_def succeeds_at_def
      rate_limited_def)

lemma example_three_429:
  "available (new_CloudSession ''key'' None 1000)
   \<and> (\<forall>i<3. rate_limited_at (rate_limited 3 ''payload'')
               (requests (new_CloudSession ''key'' None 1000) + i))"
  by (simp add: new_CloudSession_def requests_def rate_limited_at_def rate_limited_def)

theorem fetchApi_retries_429_witness:
  "fst (fetchApi (rate_limited 2 ''payload'') (new_CloudSession ''key'' None 1000)) = Some ''payload''
   \<and> trace (snd (fetchApi (rate_limited 2 ''payload'') (new_CloudSession ''key'' None 1000)))
       = [Requested, Slept 2000, Requested, Slept 4000, Requested]
   \<and> fst (fetchApi (rate_limited 3 ''payload'') (new_CloudSession ''key'' None 1000)) = None
   \<and> trace (snd (fetchApi (rate_limited 3 ''payload'') (new_CloudSession ''key'' None 1000)))
       = [Requested, Slept 2000, Requested, Slept 4000, Requested, Slept 8000]"
proof -
  have no_delay: "request_delay (new_CloudSession ''key'' None 1000) = []"
      and fresh: "trace (new_CloudSession ''key'' None 1000) = []"
    by (simp_all add: request_delay_def new_CloudSession_def REQUEST_DELAY_MS_def)
  note two = fetchApi_retries_429
      [of "new_CloudSession ''key'' None 1000" 2 "rate_limited 2 ''payload''" "''payload''",
       THEN conjunct1, THEN mp, OF example_two_429]
  note three = fetchApi_retries_429
      [of "new_CloudSession ''key'' None 1000" 3 "rate_limited 3 ''payload''" "''payload''",
       THEN conjunct2, THEN conjunct1, THEN mp, OF example_three_429]
  from two three show ?thesis
    by (simp add: no_delay fresh backoff_events_values)
qed

text \<open>Claim C1 as stated fails after three 429 responses in a row: the fourth request,
  which would succeed, is never sent, and the call returns no result.\<close>

theorem fetchApi_three_429_counterexample:
  "snd (rate_limited 3 ''payload'' 0) = Response 429 None
   \<and> snd (rate_limited 3 ''payload'' 1) = Response 429 None
   \<and> snd (rate_limited 3 ''payload'' 2) = Response 429 None
   \<and> snd (rate_limited 3 ''payload'' 3) = Response 200 (Some ''payload'')
   \<and> fetchApi (rate_limited 3 ''payload'') (new_CloudSession ''key'' None 1000) =
       (None,
        \<lparr> sessionKey = ''key'', orgId = None, available = True, lastRequestTime = 7040,
          clock = 15060,
          trace = [Requested, Slept 2000, Requested, Slept 4000, Requested, Slept 8000] \<rparr>)"
  by code_simp

section \<open>Message counts of the local source\<close>



















section \<open>Fan-out over the sources\<close>

lemma promise_all_caught:
  "promise_all (map (\<lambda>s. catch_with [] (f s)) xs) = Inr (map (\<lambda>s. contribution (f s)) xs)"
proof (induction xs)
  case Nil
  then show ?case by simp
next
  case (Cons x xs)
  then show ?case by (cases "f x") (simp_all add: catch_with_def)
qed

lemma active_sources_append:
  "active_sources flt (xs @ ys) = active_sources flt xs @ active_sources flt ys"
  by (simp add: active_sources_def)

lemma contributions_without:
  assumes "f s = Inl e"
  shows "concat (map (\<lambda>s. contribution (f s)) (active_sources flt (pre @ s # post)))
         = concat (map (\<lambda>s. contribution (f s)) (active_sources flt (pre @ post)))"
proof -
  have "concat (map (\<lambda>s. contribution (f s)) (active_sources flt [s])) = []"
    using assms by (simp add: active_sources_def)
  then show ?thesis
    using active_sources_append [of flt pre "[s] @ post"] active_sources_append [of flt "[s]" post]
    by (simp add: active_sources_append)
qed

lemma listSessions_eq:
  "listSessions sources0 args =
     Inr \<lparr> sessions = take (requested_limit args) (drop (requested_offset args)
                          (array_sort by_updatedAt_desc (merged_sessions sources0 args))),
           pagination = \<lparr> total_count = length (merged_sessions sources0 args),
                          page_limit = requested_limit args,
                          page_offset = requested_offset args,
                          has_more = (requested_offset args + requested_limit args
                                       < length (merged_sessions sources0 args)) \<rparr> \<rparr>"
  by (simp add: listSessions_def Let_def promise_all_caught merged_sessions_def
      requested_limit_def requested_offset_def slice_page length_array_sort)

lemma listProjects_eq:
  "listProjects sources0 src =
     Inr (array_sort by_lastActivity_desc
            (concat (map (\<lambda>s. contribution (fst (listProjects_m s (state s))))
                       (active_sources (case src of Some f \<Rightarrow> f | None \<Rightarrow> All) sources0))))"
  by (simp add: listProjects_def Let_def promise_all_caught)

lemma searchConversations_eq:
  "searchConversations sources0 args =
     Inr \<lparr> results = take (case sa_limit args of Some l \<Rightarrow> l | None \<Rightarrow> 30)
              (array_sort by_result_timestamp_desc
                 (concat (map (\<lambda>s. contribution (fst (search_m s (searchConversations_opts args) (state s))))
                            (active_sources (case sa_source args of Some f \<Rightarrow> f | None \<Rightarrow> All) sources0)))),
           sources_searched =
             map source_kind (active_sources (case sa_source args of Some f \<Rightarrow> f | None \<Rightarrow> All) sources0) \<rparr>"
  by (simp add: searchConversations_def Let_def promise_all_caught slice_zero)

text \<open>Claim C2. The listing and search queries over a set of sources never reject, whatever
  the sources do. When the operation of one source rejects, \<open>listSessions\<close> and
  \<open>listProjects\<close> return what they return over the same sources without that one, and the
  merged results of \<open>searchConversations\<close> are those over the same sources without that
  one.\<close>

theorem fan_out_isolation:
  "(\<exists>resp. listSessions sources0 args = Inr resp)
   \<and> (\<exists>ps. listProjects sources0 src = Inr ps)
   \<and> (\<exists>resp. searchConversations sources0 sargs = Inr resp)
   \<and> (fst (listSessions_m s (listSessions_opts args) (state s)) = Inl e \<longrightarrow>
        listSessions (pre @ s # post) args = listSessions (pre @ post) args)
   \<and> (fst (listProjects_m s (state s)) = Inl e \<longrightarrow>
        listProjects (pre @ s # post) src = listProjects (pre @ post) src)
   \<and> (fst (search_m s (searchConversations_opts sargs) (state s)) = Inl e \<longrightarrow>
        (\<exists>r r'. searchConversations (pre @ s # post) sargs = Inr r
               \<and> searchConversations (pre @ post) sargs = Inr r'
               \<and> results r = results r'))"
proof (intro conjI impI)
  show "\<exists>resp. listSessions sources0 args = Inr resp"
    by (simp add: listSessions_eq)
  show "\<exists>ps. listProjects sources0 src = Inr ps"
    by (simp add: listProjects_eq)
  show "\<exists>resp. searchConversations sources0 sargs = Inr resp"
    by (simp add: searchConversations_eq)
next
  assume raised: "fst (listSessions_m s (listSessions_opts args) (state s)) = Inl e"
  have "merged_sessions (pre @ s # post) args = merged_sessions (pre @ post) args"
    unfolding merged_sessions_def
    by (rule contributions_without
        [where f = "\<lambda>s. fst (listSessions_m s (listSessions_opts args) (state s))", OF raised])
  then show "listSessions (pre @ s # post) args = listSessions (pre @ post) args"
    by (simp add: listSessions_eq)
next
  assume raised: "fst (listProjects_m s (state s)) = Inl e"
  show "listProjects (pre @ s # post) src = listProjects (pre @ post) src"
    unfolding listProjects_eq
    by (simp only: contributions_without
        [where f = "\<lambda>s. fst (listProjects_m s (state s))", OF raised])
next
  assume raised: "fst (search_m s (searchConversations_opts sargs) (state s)) = Inl e"
  show "\<exists>r r'. searchConversations (pre @ s # post) sargs = Inr r
               \<and> searchConversations (pre @ post) sargs = Inr r'
               \<and> results r = results r'"
    unfolding searchConversations_eq
    by (simp add: contributions_without
        [where f = "\<lambda>s. fst (search_m s (searchConversations_opts sargs) (state s))", OF raised])
qed

lemma example_fan_out_count:
  "(case listSessions [ClaudeCodeSource example_engine example_projects, failing_source]
           (list_args 10 0) of
      Inr resp \<Rightarrow> map session_id (sessions resp) | Inl e \<Rightarrow> []) = [''session1'', ''session2'']"
  by code_simp

theorem fan_out_isolation_witness:
  "listSessions [ClaudeCodeSource example_engine example_projects, failing_source] (list_args 10 0)
     = listSessions [ClaudeCodeSource example_engine example_projects] (list_args 10 0)
   \<and> (\<exists>resp. listSessions [ClaudeCodeSource example_engine example_projects, failing_source]
                (list_args 10 0) = Inr resp
         \<and> map session_id (sessions resp) = [''session1'', ''session2''])
   \<and> listProjects [ClaudeCodeSource example_engine example_projects, failing_source] None
       = listProjects [ClaudeCodeSource example_engine example_projects] None
   \<and> (\<exists>r r'. searchConversations [ClaudeCodeSource example_engine example_projects, failing_source]
                 (search_args ''API'') = Inr r
         \<and> searchConversations [ClaudeCodeSource example_engine example_projects]
                 (search_args ''API'') = Inr r'
         \<and> results r = results r')"
proof -
  note isolation = fan_out_isolation
      [of "[ClaudeCodeSource example_engine example_projects, failing_source]" "list_args 10 0"
        None "search_args ''API''" failing_source "Error ''fetch failed''"
        "[ClaudeCodeSource example_engine example_projects]" "[]"]
  have raised: "fst (listSessions_m failing_source (listSessions_opts (list_args 10 0))
                  (state failing_source)) = Inl (Error ''fetch failed'')"
    by (simp add: failing_source_def)
  from isolation [THEN conjunct2, THEN conjunct2, THEN conjunct2, THEN conjunct1, rule_format,
      OF raised]
  have same: "listSessions [ClaudeCodeSource example_engine example_projects, failing_source]
        (list_args 10 0)
      = listSessions [ClaudeCodeSource example_engine example_projects] (list_args 10 0)"
    by simp
  from isolation [THEN conjunct1] obtain resp where
      resp: "listSessions [ClaudeCodeSource example_engine example_projects, failing_source]
        (list_args 10 0) = Inr resp"
    by blast
  with example_fan_out_count
  have ids: "map session_id (sessions resp) = [''session1'', ''session2'']"
    by simp
  have raised_projects: "fst (listProjects_m failing_source (state failing_source))
      = Inl (Error ''fetch failed'')"
    by (simp add: failing_source_def)
  from isolation [THEN conjunct2, THEN conjunct2, THEN conjunct2, THEN conjunct2, THEN conjunct1,
      THEN mp, OF raised_projects]
  have same_projects:
    "listProjects [ClaudeCodeSource example_engine example_projects, failing_source] None
       = listProjects [ClaudeCodeSource example_engine example_projects] None"
    by simp
  have raised_search: "fst (search_m failing_source (searchConversations_opts (search_args ''API''))
      (state failing_source)) = Inl (Error ''fetch failed'')"
    by (simp add: failing_source_def)
  from isolation [THEN conjunct2, THEN conjunct2, THEN conjunct2, THEN conjunct2, THEN conjunct2,
      THEN mp, OF raised_search]
  have same_results:
    "\<exists>r r'. searchConversations [ClaudeCodeSource example_engine example_projects, failing_source]
                 (search_args ''API'') = Inr r
         \<and> searchConversations [ClaudeCodeSource example_engine example_projects]
                 (search_args ''API'') = Inr r'
         \<and> results r = results r'"
    by simp
  have listing:
    "listSessions [ClaudeCodeSource example_engine example_projects, failing_source] (list_args 10 0)
       = listSessions [ClaudeCodeSource example_engine example_projects] (list_args 10 0)
     \<and> (\<exists>resp. listSessions [ClaudeCodeSource example_engine example_projects, failing_source]
                  (list_args 10 0) = Inr resp
           \<and> map session_id (sessions resp) = [''session1'', ''session2''])"
  proof (intro conjI exI)
    show "listSessions [ClaudeCodeSource example_engine example_projects, failing_source]
            (list_args 10 0)
          = listSessions [ClaudeCodeSource example_engine example_projects] (list_args 10 0)"
      by (rule same)
    show "listSessions [ClaudeCodeSource example_engine example_projects, failing_source]
            (list_args 10 0) = Inr resp"
      by (rule resp)
    show "map session_id (sessions resp) = [''session1'', ''session2'']"
      by (rule ids)
  qed
  show ?thesis
    by (rule conjI [OF listing [THEN conjunct1]
          conjI [OF listing [THEN conjunct2] conjI [OF same_projects same_results]]])
qed

section \<open>Pagination of the merged listing\<close>







section \<open>Conversations that are not found\<close>


















section \<open>Boundaries of the date normalizer\<close>

text \<open>An input with a time component comes back as it is, so a second pass changes nothing.
  For a bare day in the zone UTC, and whenever the zone computation throws, the start
  boundary is the day at \<open>00:00:00.000\<close> and the end boundary the day at
  \<open>23:59:59.999\<close>, in this order as strings. For any other zone the two boundaries are
  what the engine's \<open>Date\<close> and \<open>toLocaleString\<close> computation returns.\<close>

lemma normalizeDate_time_qualified:
  "CHR ''T'' \<in> set d \<Longrightarrow> normalizeDate E d isEnd tz = d"
  by (simp add: normalizeDate_def)

lemma normalizeDate_idempotent:
  assumes "CHR ''T'' \<in> set d"
  shows "normalizeDate E (normalizeDate E d isEnd tz) isEnd' tz' = normalizeDate E d isEnd tz"
  using assms by (simp add: normalizeDate_time_qualified)

lemma append_le_append: "ys \<le> zs \<Longrightarrow> xs @ ys \<le> xs @ (zs :: string)"
  by (induction xs) simp_all

lemma normalizeDate_utc_order:
  "normalizeDate E d False (Some ''UTC'') \<le> normalizeDate E d True (Some ''UTC'')"
proof (cases "CHR ''T'' \<in> set d")
  case True
  then show ?thesis by (simp add: normalizeDate_time_qualified)
next
  case False
  have "''T00:00:00.000Z'' \<le> ''T23:59:59.999Z''" by code_simp
  then have "d @ ''T00:00:00.000Z'' \<le> d @ ''T23:59:59.999Z''"
    by (rule append_le_append)
  with False show ?thesis
    by (simp add: normalizeDate_def boundary_time_def)
qed

lemma normalizeDate_other_zone:
  assumes "CHR ''T'' \<notin> set d" and "tz \<noteq> []" and "tz \<noteq> ''UTC''"
  shows "normalizeDate E d isEnd (Some tz) =
           (case zoneBoundary E d isEnd tz of
              Some utcResult \<Rightarrow> utcResult
            | None \<Rightarrow> d @ ''T'' @ boundary_time isEnd @ ''Z'')"
  using assms by (simp add: normalizeDate_def)

end
